theory Spec2Isabelle
  imports Main "HOL-Library.AList"
begin

section \<open>Python values used by the handlers\<close>

text \<open>
  Decimal rendering of integers, as \<^verbatim>\<open>str(n)\<close> and an f-string \<^verbatim>\<open>{n}\<close> produce it.
\<close>

definition digit_char :: "nat \<Rightarrow> char" where
  "digit_char d = ''0123456789'' ! d"

fun digits :: "nat \<Rightarrow> string" where
  "digits n =
     (if n < 10 then [digit_char n]
      else digits (n div 10) @ [digit_char (n mod 10)])"

declare digits.simps [simp del]

definition str_int :: "int \<Rightarrow> string" where
  "str_int i = (if i < 0 then CHR ''-'' # digits (nat (- i)) else digits (nat i))"

text \<open>
  \<^verbatim>\<open>s.replace(old, new)\<close>: every non-overlapping occurrence of \<open>old\<close>, left to right.
  The callers below never pass an empty \<open>old\<close>; for an empty \<open>old\<close> the text is returned
  as it is.
\<close>

function str_replace :: "string \<Rightarrow> string \<Rightarrow> string \<Rightarrow> string" where
  "str_replace old new [] = []"
| "str_replace old new (c # cs) =
     (if old \<noteq> [] \<and> take (length old) (c # cs) = old
      then new @ str_replace old new (drop (length old) (c # cs))
      else c # str_replace old new cs)"
  by pat_completeness auto
termination
  by (relation "measure (\<lambda>(old, new, s). length s)") (auto simp: neq_Nil_conv)

section \<open>The line-range pagination view\<close>

text \<open>
  \<^verbatim>\<open>GitHubLinesButton.get_next_lines\<close>. \<open>next_lines_raw\<close> is the pair the branches
  compute, \<open>get_next_lines\<close> the pair returned after \<^verbatim>\<open>max(l1, 1), max(l2, 1)\<close>.
\<close>

definition next_lines_raw :: "int \<Rightarrow> int option \<Rightarrow> bool \<Rightarrow> int \<times> int" where
  "next_lines_raw l1 l2 forward =
     (if forward then
        (case l2 of
           Some v \<Rightarrow> (v + 1, v + 25)
         | None \<Rightarrow> (l1, l1 + 25))
      else (l1 - 25, l1 - 1))"

definition get_next_lines :: "int \<Rightarrow> int option \<Rightarrow> bool \<Rightarrow> int \<times> int" where
  "get_next_lines l1 l2 forward =
     (case next_lines_raw l1 l2 forward of (a, b) \<Rightarrow> (max a 1, max b 1))"

text \<open>
  Button labels come from the locale's format strings \<^verbatim>\<open>view_from_to\<close> and \<^verbatim>\<open>view\<close>,
  which are not part of the sources; a label is kept as the format chosen and its arguments.
\<close>

datatype label = ViewFromTo int int | View int

text \<open>
  An element of the tuple handed to \<^verbatim>\<open>get_text_from_url_and_data\<close>: a regex group
  (a string or \<^verbatim>\<open>None\<close>) or a line number.
\<close>

datatype grp = GNone | GStr string | GInt int

text \<open>
  The regex match of the constructor. The regular expressions are not part of the sources,
  so the match is given by its groups and its named groups; \<open>first_line_number\<close> is the
  named group read with \<^verbatim>\<open>int\<close>, \<open>second_line_number\<close> the optional group read with
  \<^verbatim>\<open>mgr.opt(_, int)\<close>.
\<close>

record parsed_match =
  groups :: "grp list"
  match_platform :: string
  first_line_number :: int
  second_line_number :: "int option"

text \<open>
  The view, with the message it is attached to: \<open>label_backward\<close>, \<open>label_forward\<close> and
  \<open>revert_disabled\<close> are \<^verbatim>\<open>children[0].label\<close>, \<^verbatim>\<open>children[1].label\<close> and
  \<^verbatim>\<open>children[2].disabled\<close>; \<open>url_attr\<close> is the attribute \<^verbatim>\<open>_url\<close> the revert button
  assigns; \<open>content\<close> is the text of the displayed message and \<open>edits\<close> counts the calls
  of \<^verbatim>\<open>interaction.message.edit\<close>.
\<close>

record lines_view =
  lines_url :: string
  parsed :: parsed_match
  platform :: string
  l1 :: int
  l2 :: "int option"
  original_url :: string
  original_l1 :: int
  original_l2 :: "int option"
  original_match :: parsed_match
  url_attr :: "string option"
  label_backward :: label
  label_forward :: label
  revert_disabled :: bool
  content :: "string option"
  edits :: nat

text \<open>\<^verbatim>\<open>a or b\<close> on an optional integer: \<^verbatim>\<open>None\<close> and \<^verbatim>\<open>0\<close> are falsy.\<close>

definition or_int :: "int option \<Rightarrow> int \<Rightarrow> int" where
  "or_int a b = (case a of None \<Rightarrow> b | Some v \<Rightarrow> if v = 0 then b else v)"

text \<open>
  \<^verbatim>\<open>GitHubLinesView.__init__\<close> with \<^verbatim>\<open>_set_originals\<close>; \<open>msg\<close> is the content of the
  message the view is sent with.
\<close>

definition init_view :: "string \<Rightarrow> parsed_match \<Rightarrow> string option \<Rightarrow> lines_view" where
  "init_view url m msg =
     (let l1v = max (first_line_number m) 1;
          l2v = second_line_number m;
          b_l1 = max (l1v - 25) 1;
          b_l2 = max (l1v - 1) 1
      in \<lparr> lines_url = url, parsed = m, platform = match_platform m,
           l1 = l1v, l2 = l2v,
           original_url = url, original_l1 = l1v, original_l2 = l2v, original_match = m,
           url_attr = None,
           label_backward = (if b_l1 \<noteq> b_l2 then ViewFromTo b_l1 b_l2 else View 1),
           label_forward = ViewFromTo (max (or_int l2v l1v + 1) 1) (max (or_int l2v l1v + 25) 1),
           revert_disabled = True,
           content = msg, edits = 0 \<rparr>)"

text \<open>\<^verbatim>\<open>GitHubLinesView.set_labels\<close>.\<close>

definition set_labels :: "int \<times> int \<Rightarrow> int \<times> int \<Rightarrow> lines_view \<Rightarrow> lines_view" where
  "set_labels range_backward range_forward v =
     v \<lparr> label_backward :=
           (if fst range_backward = snd range_backward then View 1
            else ViewFromTo (fst range_backward) (snd range_backward)),
         label_forward := ViewFromTo (fst range_forward) (snd range_forward) \<rparr>"

text \<open>The rewriting of \<^verbatim>\<open>lines_url\<close> in the button callback, by platform.\<close>

definition next_url :: "string \<Rightarrow> string \<Rightarrow> int \<Rightarrow> int option \<Rightarrow> int \<Rightarrow> int \<Rightarrow> string" where
  "next_url pf url p_l1 p_l2 n_l1 n_l2 =
     (if pf = ''github'' then
        (case p_l2 of
           None \<Rightarrow> str_replace (''#L'' @ str_int p_l1)
                     (''#L'' @ str_int n_l1 @ ''-L'' @ str_int n_l2) url
         | Some p \<Rightarrow> str_replace (''L'' @ str_int p_l1 @ ''-L'' @ str_int p)
                     (''L'' @ str_int n_l1 @ ''-L'' @ str_int n_l2) url)
      else if pf = ''gitlab'' then
        (case p_l2 of
           None \<Rightarrow> str_replace (''#L['' @ str_int p_l1 @ '']'')
                     (''#L'' @ str_int n_l1 @ ''-'' @ str_int n_l2) url
         | Some p \<Rightarrow> str_replace (''#L'' @ str_int p_l1 @ ''-L'' @ str_int p)
                     (''#L'' @ str_int n_l1 @ ''-L'' @ str_int n_l2) url)
      else url)"

text \<open>Truthiness of the fetched text: \<^verbatim>\<open>None\<close> and the empty string are falsy.\<close>

definition has_text :: "string option \<Rightarrow> bool" where
  "has_text t = (case t of None \<Rightarrow> False | Some s \<Rightarrow> s \<noteq> [])"

text \<open>The content the button callback writes into the message.\<close>

definition lines_content :: "int \<Rightarrow> int option \<Rightarrow> string \<Rightarrow> string" where
  "lines_content a b new =
     [CHR 0x60] @ ''#L'' @ str_int a
       @ (case b of
            Some v \<Rightarrow> if v \<noteq> 1 then ''-L'' @ str_int v else []
          | None \<Rightarrow> ''-LNone'')
       @ [CHR 0x60, CHR 0x0A] @ new"

text \<open>
  The first part of \<^verbatim>\<open>GitHubLinesButton.callback\<close>, up to the rewriting of the URL:
  the revert button is enabled, the window is replaced by the next one and the URL follows.
\<close>

definition advance :: "bool \<Rightarrow> lines_view \<Rightarrow> lines_view" where
  "advance forward v0 =
     (let v1 = v0 \<lparr> revert_disabled := False \<rparr>;
          previous_l1 = l1 v1;
          previous_l2 = l2 v1;
          nxt = get_next_lines (l1 v1) (l2 v1) forward;
          v2 = v1 \<lparr> l1 := fst nxt, l2 := Some (snd nxt) \<rparr>
      in v2 \<lparr> lines_url :=
              next_url (platform v2) (lines_url v2) previous_l1 previous_l2 (fst nxt) (snd nxt) \<rparr>)"

text \<open>
  The tuple \<^verbatim>\<open>new_match\<close> of the button callback: the first four groups of the match
  and the line numbers of the view.
\<close>

definition new_match :: "lines_view \<Rightarrow> grp list" where
  "new_match v =
     take 4 (groups (parsed v))
       @ [GInt (l1 v), (case l2 v of Some b \<Rightarrow> GInt b | None \<Rightarrow> GNone)]"

text \<open>
  \<^verbatim>\<open>GitHubLinesButton.callback\<close>. \<open>fetch\<close> stands for
  \<^verbatim>\<open>get_text_from_url_and_data(ctx, compile_url(m), m)[0]\<close>, which is not part of the
  sources: it maps the tuple \<open>m\<close> to the text, if any.
\<close>

definition button_callback :: "(grp list \<Rightarrow> string option) \<Rightarrow> bool \<Rightarrow> lines_view \<Rightarrow> lines_view" where
  "button_callback fetch forward v0 =
     (let v3 = advance forward v0;
          new = fetch (new_match v3)
      in if has_text new then
           (let l_b = get_next_lines (l1 v3) (l2 v3) False;
                l_f = get_next_lines (l1 v3) (l2 v3) True;
                v4 = set_labels l_b l_f v3
            in v4 \<lparr> content := Some (lines_content (l1 v4) (l2 v4) (case new of Some t \<Rightarrow> t | None \<Rightarrow> [])),
                    edits := Suc (edits v4) \<rparr>)
         else v3)"

text \<open>\<^verbatim>\<open>_GitHubLinesBackToOriginalButton.callback\<close>.\<close>

definition revert_callback :: "(grp list \<Rightarrow> string option) \<Rightarrow> lines_view \<Rightarrow> lines_view" where
  "revert_callback fetch v0 =
     (let v1 = v0 \<lparr> revert_disabled := True \<rparr>;
          v2 = v1 \<lparr> l1 := original_l1 v1, l2 := original_l2 v1 \<rparr>;
          v3 = v2 \<lparr> url_attr := Some (original_url v2) \<rparr>;
          v4 = set_labels (get_next_lines (original_l1 v3) (original_l2 v3) False)
                          (get_next_lines (original_l1 v3) (original_l2 v3) True) v3
      in v4 \<lparr> content := fetch (groups (original_match v4)), edits := Suc (edits v4) \<rparr>)"

text \<open>A sequence of forward (\<open>True\<close>) and backward (\<open>False\<close>) button presses.\<close>

fun presses :: "(grp list \<Rightarrow> string option) \<Rightarrow> bool list \<Rightarrow> lines_view \<Rightarrow> lines_view" where
  "presses fetch [] v = v"
| "presses fetch (b # bs) v = presses fetch bs (button_callback fetch b v)"

section \<open>Stepping a window\<close>

text \<open>
  A window is the pair \<^verbatim>\<open>(l1, l2)\<close> of the view. \<open>step\<close> is the assignment
  \<^verbatim>\<open>self.view.l1, self.view.l2 = self.get_next_lines(...)\<close> of the button callback;
  \<open>step_clamps\<close> says that one of the two \<^verbatim>\<open>max(_, 1)\<close> of that call raised its
  argument to 1.
\<close>

type_synonym window = "int \<times> int option"

definition step :: "bool \<Rightarrow> window \<Rightarrow> window" where
  "step forward w = (case get_next_lines (fst w) (snd w) forward of (a, b) \<Rightarrow> (a, Some b))"

definition step_clamps :: "bool \<Rightarrow> window \<Rightarrow> bool" where
  "step_clamps forward w = (case next_lines_raw (fst w) (snd w) forward of (a, b) \<Rightarrow> a < 1 \<or> b < 1)"

fun steps :: "nat \<Rightarrow> bool \<Rightarrow> window \<Rightarrow> window" where
  "steps 0 forward w = w"
| "steps (Suc n) forward w = steps n forward (step forward w)"

fun steps_clamp :: "nat \<Rightarrow> bool \<Rightarrow> window \<Rightarrow> bool" where
  "steps_clamp 0 forward w = False"
| "steps_clamp (Suc n) forward w = (step_clamps forward w \<or> steps_clamp n forward (step forward w))"

text \<open>\<open>n\<close> steps forward, then \<open>n\<close> steps backward.\<close>

definition round_trip :: "nat \<Rightarrow> window \<Rightarrow> window" where
  "round_trip n w = steps n False (steps n True w)"

definition round_trip_clamps :: "nat \<Rightarrow> window \<Rightarrow> bool" where
  "round_trip_clamps n w = (steps_clamp n True w \<or> steps_clamp n False (steps n True w))"

section \<open>The object cache in front of the GitHub API\<close>

text \<open>The JSON-shaped values the API methods return.\<close>

datatype json =
    JNull
  | JBool bool
  | JInt int
  | JStr string
  | JList "json list"
  | JDict "(string \<times> json) list"

text \<open>Truthiness of a value, as \<^verbatim>\<open>if x:\<close> tests it.\<close>

fun truthy :: "json \<Rightarrow> bool" where
  "truthy JNull = False"
| "truthy (JBool b) = b"
| "truthy (JInt i) = (i \<noteq> 0)"
| "truthy (JStr s) = (s \<noteq> [])"
| "truthy (JList xs) = (xs \<noteq> [])"
| "truthy (JDict kvs) = (kvs \<noteq> [])"

text \<open>\<^verbatim>\<open>isinstance(result, (dict, list))\<close>.\<close>

fun is_container :: "json \<Rightarrow> bool" where
  "is_container (JList xs) = True"
| "is_container (JDict kvs) = True"
| "is_container v = False"

text \<open>
  The exceptions of the models: \<open>IndexError\<close> for an index out of range,
  \<open>RuntimeError\<close> for the \<^verbatim>\<open>StopIteration\<close> of \<^verbatim>\<open>next\<close> on an exhausted iterator
  (inside a coroutine it surfaces as a \<^verbatim>\<open>RuntimeError\<close>), \<open>Raised\<close> for an exception
  of a called function.
\<close>

datatype py_error = IndexError | RuntimeError | Raised string

text \<open>
  The key of \<^verbatim>\<open>github_cached\<close>:
  \<^verbatim>\<open>f'{id(func)}:{args[1] if args else next(iter(kwargs))}'\<close>.
  \<open>args\<close> are the positional arguments of the call (of a method: the instance first),
  \<open>kwargs\<close> the keyword arguments in call order, \<open>func_id\<close> is \<^verbatim>\<open>id(func)\<close> and
  \<open>py_str\<close> is the text an f-string gives an argument.
\<close>

definition cache_key :: "('a \<Rightarrow> string) \<Rightarrow> nat \<Rightarrow> 'a list \<Rightarrow> (string \<times> 'a) list \<Rightarrow> py_error + string" where
  "cache_key py_str func_id args kwargs =
     (if args \<noteq> [] then
        (if 1 < length args then Inr (digits func_id @ '':'' @ py_str (args ! 1))
         else Inl IndexError)
      else
        (case kwargs of
           [] \<Rightarrow> Inl RuntimeError
         | (k, v) # rest \<Rightarrow> Inr (digits func_id @ '':'' @ k)))"

text \<open>
  The wrapper of \<^verbatim>\<open>github_cached\<close>. The class of the cache (\<^verbatim>\<open>TypedCache\<close>) is not part
  of the sources: \<open>cache_get\<close> and \<open>cache_set\<close> are its \<^verbatim>\<open>get\<close> and its item assignment
  on a cache state \<open>c\<close>. \<open>func\<close> is the decorated function. The result is the value
  returned or the exception raised, and the cache state after the call.
\<close>

definition github_cached ::
  "('c \<Rightarrow> string \<Rightarrow> json option) \<Rightarrow> ('c \<Rightarrow> string \<Rightarrow> json \<Rightarrow> 'c) \<Rightarrow> ('a \<Rightarrow> string) \<Rightarrow> nat
   \<Rightarrow> ('a list \<Rightarrow> (string \<times> 'a) list \<Rightarrow> py_error + json)
   \<Rightarrow> 'a list \<Rightarrow> (string \<times> 'a) list \<Rightarrow> 'c \<Rightarrow> (py_error + json) \<times> 'c" where
  "github_cached cache_get cache_set py_str func_id func args kwargs c =
     (case cache_key py_str func_id args kwargs of
        Inl e \<Rightarrow> (Inl e, c)
      | Inr key \<Rightarrow>
          (let cached = (case cache_get c key of None \<Rightarrow> JNull | Some v \<Rightarrow> v)
           in if truthy cached then (Inr cached, c)
              else
                (case func args kwargs of
                   Inl e \<Rightarrow> (Inl e, c)
                 | Inr result \<Rightarrow>
                     if is_container result then (Inr result, cache_set c key result)
                     else (Inr result, c))))"

section \<open>Repository archives and the lines-of-code command\<close>

definition BASE_URL :: string where
  "BASE_URL = ''https://api.github.com''"

definition DISCORD_UPLOAD_SIZE_THRESHOLD_BYTES :: nat where
  "DISCORD_UPLOAD_SIZE_THRESHOLD_BYTES = 8231321"

definition MB25_BYTES :: nat where
  "MB25_BYTES = 25 * 1024 ^ 2"

text \<open>The response of \<^verbatim>\<open>session.get\<close>: its status and the bytes of its content.\<close>

record response =
  status :: nat
  body :: string

text \<open>What \<^verbatim>\<open>get_repo_zip\<close> returns: \<^verbatim>\<open>None\<close>, \<^verbatim>\<open>False\<close> or bytes.\<close>

datatype zip_result = ZNone | ZFalse | ZBytes string

text \<open>
  \<^verbatim>\<open>GitHubAPI.get_repo_zip\<close>, on the repository name the decorator hands it.
  \<^verbatim>\<open>readexactly(n)\<close> returns when the content has \<open>n\<close> bytes and raises
  \<^verbatim>\<open>IncompleteReadError\<close>, carrying the whole content as \<^verbatim>\<open>partial\<close>, when it has fewer.
\<close>

definition zipball_url :: "string \<Rightarrow> string" where
  "zipball_url repo = BASE_URL @ ''/repos/'' @ repo @ ''/zipball''"

definition get_repo_zip :: "(string \<Rightarrow> response) \<Rightarrow> string \<Rightarrow> nat \<Rightarrow> zip_result" where
  "get_repo_zip session_get repo size_threshold =
     (if CHR ''/'' \<notin> set repo \<or> 1 < count_list repo (CHR ''/'') then ZNone
      else
        (let res = session_get (zipball_url repo)
         in if status res = 200 then
              (if length (body res) < size_threshold then ZBytes (body res) else ZFalse)
            else ZNone))"

text \<open>\<^verbatim>\<open>str.lower\<close> on the ASCII letters, which repository names are made of.\<close>

definition lower_char :: "char \<Rightarrow> char" where
  "lower_char c =
     (case map_of (zip ''ABCDEFGHIJKLMNOPQRSTUVWXYZ'' ''abcdefghijklmnopqrstuvwxyz'') c of
        Some l \<Rightarrow> l
      | None \<Rightarrow> c)"

definition str_lower :: "string \<Rightarrow> string" where
  "str_lower s = map lower_char s"

text \<open>
  What \<^verbatim>\<open>process_repo\<close> does besides returning: it writes the archive to a temporary
  file, counts the lines, and removes the temporary files in its \<^verbatim>\<open>finally\<close> block.
\<close>

datatype event = WriteZip string | CountLines | RemoveTmp

text \<open>
  \<^verbatim>\<open>LinesOfCode.process_repo\<close>. \<open>count_lines repo files\<close> stands for the steps between
  the write of the archive and the return: unzipping, removing the files the repository's
  configuration ignores and running the line counter; it gives the counter's report with
  the number of removed entries, or \<open>None\<close> when the counter exits with an error
  (\<^verbatim>\<open>CalledProcessError\<close>). \<open>nocache\<close> is \<^verbatim>\<open>ctx.__nocache__\<close>, \<open>loc_cache\<close> the cache
  of reports. The result is the value returned, the cache and the events, in order.
\<close>

definition process_repo ::
  "(string \<Rightarrow> response) \<Rightarrow> (string \<Rightarrow> string \<Rightarrow> ('o \<times> nat) option) \<Rightarrow> bool
   \<Rightarrow> (string \<rightharpoonup> 'o \<times> nat) \<Rightarrow> string
   \<Rightarrow> ('o \<times> nat) option \<times> (string \<rightharpoonup> 'o \<times> nat) \<times> event list" where
  "process_repo session_get count_lines nocache loc_cache repo0 =
     (let repo = (if nocache then repo0 else str_lower repo0);
          hit = (if nocache then None else loc_cache repo)
      in case hit of
           Some cached \<Rightarrow> (Some cached, loc_cache, [])
         | None \<Rightarrow>
             (case get_repo_zip session_get repo MB25_BYTES of
                ZBytes files \<Rightarrow>
                  if files = [] then (None, loc_cache, [RemoveTmp])
                  else
                    (case count_lines repo files of
                       None \<Rightarrow> (None, loc_cache, [WriteZip files, CountLines, RemoveTmp])
                     | Some out \<Rightarrow>
                         (Some out, loc_cache(repo \<mapsto> out), [WriteZip files, CountLines, RemoveTmp]))
              | ZFalse \<Rightarrow> (None, loc_cache, [RemoveTmp])
              | ZNone \<Rightarrow> (None, loc_cache, [RemoveTmp])))"

text \<open>
  A reply of a command: \<^verbatim>\<open>ctx.error\<close> with a message of the locale, named by its path in
  the locale, or an embed sent.
\<close>

datatype 'e reply = Error string | Send 'e

text \<open>The footer of the lines-of-code embed.\<close>

datatype loc_footer = Credit | WithCountPlural nat | WithCountSingular

text \<open>
  \<^verbatim>\<open>LinesOfCode.lines_of_code_command\<close>. \<open>get_repo\<close> is the API lookup of the repository.
  The embed is kept as the report it is built from and its footer.
\<close>

definition lines_of_code_command ::
  "(string \<Rightarrow> json option) \<Rightarrow> (string \<Rightarrow> response) \<Rightarrow> (string \<Rightarrow> string \<Rightarrow> ('o \<times> nat) option)
   \<Rightarrow> bool \<Rightarrow> (string \<rightharpoonup> 'o \<times> nat) \<Rightarrow> string
   \<Rightarrow> ('o \<times> loc_footer) reply \<times> (string \<rightharpoonup> 'o \<times> nat) \<times> event list" where
  "lines_of_code_command get_repo session_get count_lines nocache loc_cache repo =
     (let r = (case get_repo repo of None \<Rightarrow> JNull | Some v \<Rightarrow> v)
      in if \<not> truthy r then (Error ''generic.nonexistent.repo.base'', loc_cache, [])
         else
           (case process_repo session_get count_lines nocache loc_cache repo of
              (None, cache', evs) \<Rightarrow> (Error ''loc.file_too_big'', cache', evs)
            | (Some (output, count), cache', evs) \<Rightarrow>
                (Send (output,
                   if count = 0 then Credit
                   else if 1 < count then WithCountPlural count else WithCountSingular),
                 cache', evs)))"

section \<open>The user collection\<close>

text \<open>
  A stored value: an identity (the \<^verbatim>\<open>_id\<close> of a record, a Discord user id) or a string.
  A document is a dictionary, kept as the list of its items; the collection maps an
  \<^verbatim>\<open>_id\<close> to the document stored under it.
\<close>

datatype val = IdV int | StrV string

type_synonym doc = "(string \<times> val) list"

type_synonym store = "val \<Rightarrow> doc option"

text \<open>
  The operations of the database driver that the collection calls. A filter is a document:
  it matches the stored document with its \<^verbatim>\<open>_id\<close> whose items include the filter's.
  The database refuses an update of \<^verbatim>\<open>_id\<close> (\<open>WriteError\<close>) and an insert under an
  \<^verbatim>\<open>_id\<close> that is taken (\<open>DuplicateKeyError\<close>).
\<close>

datatype mongo_error = WriteError | DuplicateKeyError

definition find_one :: "store \<Rightarrow> val \<Rightarrow> doc option" where
  "find_one s ident = s ident"

definition matched :: "store \<Rightarrow> doc \<Rightarrow> (val \<times> doc) option" where
  "matched s query =
     (case map_of query ''_id'' of
        None \<Rightarrow> None
      | Some ident \<Rightarrow>
          (case s ident of
             None \<Rightarrow> None
           | Some d \<Rightarrow>
               if list_all (\<lambda>kv. map_of d (fst kv) = Some (snd kv)) query then Some (ident, d)
               else None))"

definition update_one_unset :: "store \<Rightarrow> doc \<Rightarrow> string \<Rightarrow> mongo_error + store" where
  "update_one_unset s query field =
     (case matched s query of
        None \<Rightarrow> Inr s
      | Some (ident, d) \<Rightarrow>
          if field = ''_id'' then Inl WriteError
          else Inr (s(ident \<mapsto> AList.delete field d)))"

definition update_one_set :: "store \<Rightarrow> doc \<Rightarrow> string \<Rightarrow> val \<Rightarrow> mongo_error + store" where
  "update_one_set s query field v =
     (case matched s query of
        None \<Rightarrow> Inr s
      | Some (ident, d) \<Rightarrow>
          if field = ''_id'' \<and> v \<noteq> ident then Inl WriteError
          else Inr (s(ident \<mapsto> AList.update field v d)))"

definition insert_one :: "store \<Rightarrow> val \<Rightarrow> doc \<Rightarrow> mongo_error + store" where
  "insert_one s ident d =
     (case s ident of
        Some old \<Rightarrow> Inl DuplicateKeyError
      | None \<Rightarrow> Inr (s(ident \<mapsto> d)))"

definition find_one_and_delete :: "store \<Rightarrow> val \<Rightarrow> store" where
  "find_one_and_delete s ident = s(ident := None)"

text \<open>
  \<^verbatim>\<open>UserCollection.delitem\<close>, on the identity the decorator \<^verbatim>\<open>normalize_identity\<close>
  hands it. The result is the value returned and the collection after the call, or the
  error of the database.
\<close>

definition delitem :: "store \<Rightarrow> val \<Rightarrow> string \<Rightarrow> mongo_error + bool \<times> store" where
  "delitem s ident field =
     (case find_one s ident of
        None \<Rightarrow> Inr (False, s)
      | Some query \<Rightarrow>
          if field \<in> set (map fst query) then
            (case update_one_unset s query field of
               Inl e \<Rightarrow> Inl e
             | Inr s1 \<Rightarrow>
                 (let query' = AList.delete field query
                  in if length query' = 1 then Inr (True, find_one_and_delete s1 ident)
                     else Inr (True, s1)))
          else Inr (False, s))"

text \<open>\<^verbatim>\<open>UserCollection.getitem\<close>: a document is truthy when it has an item.\<close>

definition getitem :: "store \<Rightarrow> val \<Rightarrow> string \<Rightarrow> val option" where
  "getitem s ident item =
     (case find_one s ident of
        None \<Rightarrow> None
      | Some query \<Rightarrow> if query \<noteq> [] \<and> item \<in> set (map fst query) then map_of query item else None)"

text \<open>
  What \<^verbatim>\<open>setitem\<close> validates against: the three lookups of the GitHub API
  (\<open>None\<close> for a name that is not found) and the languages of the locale.
\<close>

record language =
  lang_name :: string

record validators =
  get_user :: "string \<Rightarrow> json option"
  get_repo :: "string \<Rightarrow> json option"
  get_org :: "string \<Rightarrow> json option"
  languages :: "language list"

text \<open>The flag \<^verbatim>\<open>valid\<close> of \<^verbatim>\<open>setitem\<close>.\<close>

definition valid_item :: "validators \<Rightarrow> string \<Rightarrow> string \<Rightarrow> bool" where
  "valid_item env item v =
     (if item \<in> {''user'', ''repo'', ''org''} then
        (if item = ''user'' then get_user env v \<noteq> None
         else if item = ''repo'' then get_repo env v \<noteq> None
         else get_org env v \<noteq> None)
      else if item = ''locale'' then list_ex (\<lambda>l. lang_name l = v) (languages env)
      else True)"

text \<open>\<^verbatim>\<open>UserCollection.setitem\<close>.\<close>

definition setitem :: "validators \<Rightarrow> store \<Rightarrow> val \<Rightarrow> string \<Rightarrow> string \<Rightarrow> mongo_error + bool \<times> store" where
  "setitem env s ident item v =
     (if valid_item env item v then
        (case find_one s ident of
           Some query \<Rightarrow>
             (case update_one_set s query item (StrV v) of
                Inl e \<Rightarrow> Inl e
              | Inr s1 \<Rightarrow> Inr (True, s1))
         | None \<Rightarrow>
             (let d = AList.update item (StrV v) [(''_id'', ident)]
              in case insert_one s (case map_of d ''_id'' of Some i \<Rightarrow> i | None \<Rightarrow> ident) d of
                   Inl e \<Rightarrow> Inl e
                 | Inr s1 \<Rightarrow> Inr (True, s1)))
      else Inr (False, s))"

section \<open>Truncated lists in the command replies\<close>

text \<open>\<^verbatim>\<open>sep.join(xs)\<close>.\<close>

fun join :: "string \<Rightarrow> string list \<Rightarrow> string" where
  "join sep [] = []"
| "join sep [x] = x"
| "join sep (x # y # ys) = x @ sep @ join sep (y # ys)"

text \<open>A repository of the list \<^verbatim>\<open>get_user_repos\<close> returns, and the user \<^verbatim>\<open>get_user\<close> returns.\<close>

record repo_item =
  repo_name :: string
  html_url :: string

record user_info =
  avatarUrl :: string

record embed =
  title :: string
  description :: string
  url :: string
  footer :: "string option"
  thumbnail :: "string option"

text \<open>The items of the description of the \<^verbatim>\<open>user repos\<close> embed: \<^verbatim>\<open>repos[:15]\<close>, rendered.\<close>

definition render_repo :: "repo_item \<Rightarrow> string" where
  "render_repo x = '':white_small_square: [**'' @ repo_name x @ ''**]('' @ html_url x @ '')''"

definition repo_lines :: "repo_item list \<Rightarrow> string list" where
  "repo_lines repos = map render_repo (take 15 repos)"

definition is_upper :: "char \<Rightarrow> bool" where
  "is_upper c = (c \<in> set ''ABCDEFGHIJKLMNOPQRSTUVWXYZ'')"

text \<open>
  \<^verbatim>\<open>User.user_repos_command\<close>. \<open>fmt\<close> is the formatter \<^verbatim>\<open>ctx.fmt\<close> of the locale, which
  is not part of the sources; \<open>u\<close> and \<open>repos\<close> are what \<^verbatim>\<open>get_user\<close> and
  \<^verbatim>\<open>get_user_repos\<close> returned. The colour of the embed is left out.
\<close>

definition user_repos_command ::
  "(string \<Rightarrow> string list \<Rightarrow> string) \<Rightarrow> user_info option \<Rightarrow> repo_item list option \<Rightarrow> string
   \<Rightarrow> py_error + embed reply" where
  "user_repos_command fmt u repos user =
     (case u of
        None \<Rightarrow> Inr (Error ''generic.nonexistent.user.base'')
      | Some ui \<Rightarrow>
          (case repos of
             None \<Rightarrow> Inr (Error ''user.repos.no_public'')
           | Some rs \<Rightarrow>
               if rs = [] then Inr (Error ''user.repos.no_public'')
               else
                 (case user of
                    [] \<Rightarrow> Inl IndexError
                  | c # cs \<Rightarrow>
                      (let e0 = \<lparr> title = (if is_upper c then fmt ''owner'' [user]
                                           else str_lower (fmt ''owner'' [user])),
                                  description = join [CHR 0x0A] (repo_lines rs),
                                  url = ''https://github.com/'' @ user,
                                  footer = None, thumbnail = None \<rparr>;
                           e1 = (if 15 < length rs
                                 then e0 \<lparr> footer := Some (fmt ''more'' [digits (length rs - 15)]) \<rparr>
                                 else e0)
                       in Inr (Send (e1 \<lparr> thumbnail := Some (avatarUrl ui) \<rparr>))))))"

text \<open>An owner of a crate, and the authors line of \<^verbatim>\<open>Crates.crate_info_command\<close>.\<close>

record owner =
  owner_name :: string
  kind :: string
  owner_url :: string

definition render_owner :: "owner \<Rightarrow> string" where
  "render_owner ow =
     ''['' @ owner_name ow
       @ (if kind ow = ''team'' then '' '' @ [CHR 0x60] @ ''(team)'' @ [CHR 0x60] else [])
       @ '']('' @ owner_url ow @ '')''"

definition owner_links :: "owner list \<Rightarrow> string list" where
  "owner_links owners = map render_owner (take 5 owners)"

definition more_authors :: "(string \<Rightarrow> string list \<Rightarrow> string) \<Rightarrow> owner list \<Rightarrow> string \<Rightarrow> string" where
  "more_authors fmt owners crate_url =
     (if 5 < length owners
      then '' '' @ fmt ''more_authors'' [''['' @ digits (length owners - 5) @ '']('' @ crate_url @ '')'']
      else [])"

definition authors :: "(string \<Rightarrow> string list \<Rightarrow> string) \<Rightarrow> owner list \<Rightarrow> string \<Rightarrow> string" where
  "authors fmt owners crate_url =
     fmt ''authors'' [join '', '' (owner_links owners)] @ more_authors fmt owners crate_url @ [CHR 0x0A]"

section \<open>Properties of the pagination view\<close>

text \<open>
  Claim C1. For a first line \<open>a\<close> of at least 1, a forward step from a window with a
  second line \<open>b\<close> gives \<open>(b + 1, b + 25)\<close>, a forward step from a window without a
  second line gives \<open>(a, a + 25)\<close>, a backward step gives \<open>(a - 25, a - 1)\<close>, and every
  component of a result is raised to 1 when it is below.
\<close>

theorem get_next_lines_spec:
  assumes "1 \<le> a"
  shows "get_next_lines a (Some b) True = (max (b + 1) 1, max (b + 25) 1)
       \<and> get_next_lines a None True = (a, a + 25)
       \<and> get_next_lines a c False = (max (a - 25) 1, max (a - 1) 1)
       \<and> 1 \<le> fst (get_next_lines a c f) \<and> 1 \<le> snd (get_next_lines a c f)"
  using assms
  by (simp add: get_next_lines_def next_lines_raw_def split: option.split prod.split)

theorem get_next_lines_spec_witness:
  "get_next_lines 5 (Some 9) True = (10, 34)
 \<and> get_next_lines 5 None True = (5, 30)
 \<and> get_next_lines 5 (Some 9) False = (1, 4)"
  using get_next_lines_spec [of 5 9 "Some 9" True] by simp

lemma presses_originals:
  "original_l1 (presses g bs v) = original_l1 v \<and> original_l2 (presses g bs v) = original_l2 v"
  by (induction bs arbitrary: v)
    (simp_all add: button_callback_def advance_def set_labels_def Let_def)

text \<open>
  Claim C2. After any sequence of forward and backward presses, the revert button sets the
  window of the view to the original window, which the constructor took from the window
  it computed, and disables itself; the next forward or backward press enables it again.
\<close>

theorem revert_restores:
  "l1 (revert_callback f (presses g bs v)) = original_l1 v
 \<and> l2 (revert_callback f (presses g bs v)) = original_l2 v
 \<and> revert_disabled (revert_callback f (presses g bs v))
 \<and> \<not> revert_disabled (button_callback h b (revert_callback f (presses g bs v)))
 \<and> original_l1 (init_view u m msg) = l1 (init_view u m msg)
 \<and> original_l2 (init_view u m msg) = l2 (init_view u m msg)"
  by (simp add: presses_originals revert_callback_def button_callback_def advance_def
      set_labels_def init_view_def Let_def)

theorem revert_restores_witness:
  "l1 (revert_callback (\<lambda>m. Some ''abc'')
        (presses (\<lambda>m. Some ''abc'') [True, True, False]
          (init_view ''u#L3'' \<lparr>groups = [], match_platform = ''github'', first_line_number = 3,
             second_line_number = None\<rparr> (Some ''x'')))) = 3
 \<and> l2 (revert_callback (\<lambda>m. Some ''abc'')
        (presses (\<lambda>m. Some ''abc'') [True, True, False]
          (init_view ''u#L3'' \<lparr>groups = [], match_platform = ''github'', first_line_number = 3,
             second_line_number = None\<rparr> (Some ''x'')))) = None
 \<and> l1 (presses (\<lambda>m. Some ''abc'') [True, True, False]
          (init_view ''u#L3'' \<lparr>groups = [], match_platform = ''github'', first_line_number = 3,
             second_line_number = None\<rparr> (Some ''x''))) = 4"
  using revert_restores [where f = "\<lambda>m. Some ''abc''" and g = "\<lambda>m. Some ''abc''"
      and bs = "[True, True, False]"
      and v = "init_view ''u#L3'' \<lparr>groups = [], match_platform = ''github'', first_line_number = 3,
             second_line_number = None\<rparr> (Some ''x'')"
      and h = "\<lambda>m. None" and b = True and u = "''u#L3''"
      and m = "\<lparr>groups = [], match_platform = ''github'', first_line_number = 3,
             second_line_number = None\<rparr>" and msg = "Some ''x''"]
  by (simp add: init_view_def button_callback_def advance_def set_labels_def Let_def
      get_next_lines_def next_lines_raw_def has_text_def)

lemma step_forward_some:
  "1 \<le> b \<Longrightarrow> step True (a, Some b) = (b + 1, Some (b + 25))"
  by (simp add: step_def get_next_lines_def next_lines_raw_def)

lemma step_backward:
  "step False (x, y) = (max (x - 25) 1, Some (max (x - 1) 1))"
  by (simp add: step_def get_next_lines_def next_lines_raw_def)

lemma steps_forward:
  "1 \<le> b \<Longrightarrow> steps (Suc n) True (a, Some b) = (b + 25 * int n + 1, Some (b + 25 * int n + 25))"
proof (induction n arbitrary: a b)
  case 0
  then show ?case by (simp add: step_forward_some)
next
  case (Suc n)
  have "steps (Suc (Suc n)) True (a, Some b) = steps (Suc n) True (b + 1, Some (b + 25))"
    using Suc.prems by (simp add: step_forward_some)
  also have "\<dots> = (b + 25 + 25 * int n + 1, Some (b + 25 + 25 * int n + 25))"
    using Suc.prems by (intro Suc.IH) simp
  finally show ?case by simp
qed

lemma steps_backward:
  "1 \<le> c \<Longrightarrow> steps (Suc k) False (c + 25 * int k + 1, y) = (max (c - 24) 1, Some c)"
proof (induction k arbitrary: y)
  case 0
  then show ?case by (simp add: step_backward)
next
  case (Suc k)
  have "step False (c + 25 * int (Suc k) + 1, y) = (c + 25 * int k + 1, Some (c + 25 * int k + 25))"
    using Suc.prems by (simp add: step_backward)
  then have "steps (Suc (Suc k)) False (c + 25 * int (Suc k) + 1, y)
      = steps (Suc k) False (c + 25 * int k + 1, Some (c + 25 * int k + 25))"
    by simp
  then show ?case using Suc.IH [OF Suc.prems] by simp
qed

lemma forward_never_clamps:
  "1 \<le> b \<Longrightarrow> \<not> steps_clamp n True (a, Some b)"
proof (induction n arbitrary: a b)
  case 0
  then show ?case by simp
next
  case (Suc n)
  have "\<not> step_clamps True (a, Some b)"
    using Suc.prems by (simp add: step_clamps_def next_lines_raw_def)
  moreover have "\<not> steps_clamp n True (b + 1, Some (b + 25))"
    using Suc.prems by (intro Suc.IH) simp
  ultimately show ?case using Suc.prems by (simp add: step_forward_some)
qed

lemma backward_clamps:
  "1 \<le> c \<Longrightarrow> steps_clamp (Suc k) False (c + 25 * int k + 1, y) = (c < 25)"
proof (induction k arbitrary: y)
  case 0
  then show ?case by (auto simp add: step_clamps_def next_lines_raw_def)
next
  case (Suc k)
  have s: "step False (c + 25 * int (Suc k) + 1, y) = (c + 25 * int k + 1, Some (c + 25 * int k + 25))"
    using Suc.prems by (simp add: step_backward)
  have n: "\<not> step_clamps False (c + 25 * int (Suc k) + 1, y)"
    using Suc.prems by (simp add: step_clamps_def next_lines_raw_def)
  have "steps_clamp (Suc (Suc k)) False (c + 25 * int (Suc k) + 1, y)
      = steps_clamp (Suc k) False (c + 25 * int k + 1, Some (c + 25 * int k + 25))"
    using s n by simp
  then show ?case using Suc.IH [OF Suc.prems] by simp
qed

lemma steps_snd_set: "0 < n \<Longrightarrow> snd (steps n f w) \<noteq> None"
proof (induction n arbitrary: w)
  case 0
  then show ?case by simp
next
  case (Suc n)
  show ?case
  proof (cases n)
    case 0
    then show ?thesis by (simp add: step_def split: prod.split)
  next
    case (Suc m)
    then show ?thesis using Suc.IH [of "step f w"] by simp
  qed
qed

text \<open>
  Claim C3, as stated, fails: from the window \<open>(1, 10)\<close> one step forward and one step
  backward return \<open>(1, 10)\<close>, and the backward step clamps its first line
  (\<open>11 - 25\<close>) to 1.
\<close>

theorem round_trip_counterexample:
  "\<not> (round_trip 1 (1, Some 10) = (1, Some 10) \<longrightarrow> \<not> round_trip_clamps 1 (1, Some 10))"
  by (simp add: round_trip_def round_trip_clamps_def step_def step_clamps_def
      get_next_lines_def next_lines_raw_def)

text \<open>
  Claim C3, amended. From a window with a second line \<open>b\<close> of at least 1, \<open>n\<close> steps
  forward and then \<open>n\<close> steps backward, for \<open>n\<close> of at least 1, return the window
  \<open>(max (b - 24) 1, b)\<close>, whatever the first line was: the result is the original
  window exactly when its first line is \<open>max (b - 24) 1\<close>, and a clamp to 1 occurs among
  the \<open>2n\<close> steps exactly when \<open>b\<close> is below 25. From a window without a second line
  the result is never the original window.
\<close>

theorem round_trip_window:
  assumes "1 \<le> b" and "1 \<le> n"
  shows "round_trip n (a, Some b) = (max (b - 24) 1, Some b)
       \<and> (round_trip n (a, Some b) = (a, Some b) \<longleftrightarrow> a = max (b - 24) 1)
       \<and> (round_trip_clamps n (a, Some b) \<longleftrightarrow> b < 25)
       \<and> round_trip n (a, None) \<noteq> (a, None)"
proof -
  obtain k where k: "n = Suc k" using assms(2) by (cases n) auto
  have f: "steps n True (a, Some b) = (b + 25 * int k + 1, Some (b + 25 * int k + 25))"
    using assms(1) k by (simp only: steps_forward)
  have r: "round_trip n (a, Some b) = (max (b - 24) 1, Some b)"
    unfolding round_trip_def f using steps_backward [OF assms(1), of k] k by simp
  have c: "round_trip_clamps n (a, Some b) \<longleftrightarrow> b < 25"
    unfolding round_trip_clamps_def f
    using forward_never_clamps [OF assms(1), of n a] backward_clamps [OF assms(1), of k] k by simp
  have "snd (round_trip n (a, None)) \<noteq> None"
    unfolding round_trip_def using steps_snd_set [of n] k by simp
  then have e: "round_trip n (a, None) \<noteq> (a, None)" by auto
  show ?thesis using r c e by auto
qed

theorem round_trip_window_witness:
  "round_trip 2 (1, Some 10) = (1, Some 10) \<and> round_trip_clamps 2 (1, Some 10)
 \<and> round_trip 2 (7, Some 30) = (6, Some 30) \<and> \<not> round_trip_clamps 2 (7, Some 30)"
  using round_trip_window [of 10 2 1] round_trip_window [of 30 2 7] by simp

text \<open>
  Claim C4. In the button callback, when the text fetched for the new window is absent or
  empty, the message is not edited: its content, the number of edits and both labels are
  what they were. When there is a text, the message is edited once and its content is
  built from that text.
\<close>

theorem no_text_no_edit:
  "(\<not> has_text (fetch (new_match (advance forward v))) \<longrightarrow>
       content (button_callback fetch forward v) = content v
     \<and> edits (button_callback fetch forward v) = edits v
     \<and> label_backward (button_callback fetch forward v) = label_backward v
     \<and> label_forward (button_callback fetch forward v) = label_forward v)
 \<and> (has_text (fetch (new_match (advance forward v))) \<longrightarrow>
       edits (button_callback fetch forward v) = Suc (edits v)
     \<and> (\<exists>t. fetch (new_match (advance forward v)) = Some t \<and> t \<noteq> []
          \<and> content (button_callback fetch forward v)
              = Some (lines_content (l1 (button_callback fetch forward v))
                        (l2 (button_callback fetch forward v)) t)))"
  by (auto simp add: button_callback_def advance_def set_labels_def Let_def has_text_def
      split: option.splits)

theorem no_text_no_edit_witness:
  "content (button_callback (\<lambda>m. None) True
      (init_view ''u#L3'' \<lparr>groups = [], match_platform = ''github'', first_line_number = 3,
         second_line_number = None\<rparr> (Some ''x''))) = Some ''x''
 \<and> edits (button_callback (\<lambda>m. Some ''abc'') True
      (init_view ''u#L3'' \<lparr>groups = [], match_platform = ''github'', first_line_number = 3,
         second_line_number = None\<rparr> (Some ''x''))) = 1"
  using no_text_no_edit [of "\<lambda>m. None" True
      "init_view ''u#L3'' \<lparr>groups = [], match_platform = ''github'', first_line_number = 3,
         second_line_number = None\<rparr> (Some ''x'')"]
    no_text_no_edit [of "\<lambda>m. Some ''abc''" True
      "init_view ''u#L3'' \<lparr>groups = [], match_platform = ''github'', first_line_number = 3,
         second_line_number = None\<rparr> (Some ''x'')"]
  by (simp add: has_text_def init_view_def)

section \<open>Properties of the object cache\<close>

text \<open>
  Claim C5. A call through the wrapper leaves the cache as it was, or stores under the key
  of the call the container it returns. When the call returns a value that is not a
  container, or raises, the cache is as it was. On a cache kept as a dictionary, whose
  values are all containers, the values are all containers after the call.
\<close>

theorem cached_only_containers:
  "(snd (github_cached cg cs ps fid func args kwargs c) = c
      \<or> (\<exists>key v. is_container v
            \<and> cache_key ps fid args kwargs = Inr key
            \<and> github_cached cg cs ps fid func args kwargs c = (Inr v, cs c key v)))
 \<and> (\<forall>r. fst (github_cached cg cs ps fid func args kwargs c) = Inr r \<and> \<not> is_container r
        \<longrightarrow> snd (github_cached cg cs ps fid func args kwargs c) = c)
 \<and> (\<forall>e. fst (github_cached cg cs ps fid func args kwargs c) = Inl e
        \<longrightarrow> snd (github_cached cg cs ps fid func args kwargs c) = c)
 \<and> ((\<forall>k v. m k = Some v \<longrightarrow> is_container v) \<longrightarrow>
      (\<forall>k v. snd (github_cached (\<lambda>m k. m k) (\<lambda>m k v. m(k \<mapsto> v)) ps fid func args kwargs m) k = Some v
         \<longrightarrow> is_container v))"
  by (auto simp add: github_cached_def Let_def split: sum.splits option.splits if_splits)

theorem cached_only_containers_witness:
  "snd (github_cached (\<lambda>m k. m k) (\<lambda>m k v. m(k \<mapsto> v)) id 7 (\<lambda>a k. Inr JNull)
      [''self'', ''octocat''] [] Map.empty) = Map.empty
 \<and> fst (github_cached (\<lambda>m k. m k) (\<lambda>m k v. m(k \<mapsto> v)) id 7 (\<lambda>a k. Inr JNull)
      [''self'', ''octocat''] [] Map.empty) = Inr JNull"
  using cached_only_containers [of "\<lambda>m k. m k" "\<lambda>m k v. m(k \<mapsto> v)" id 7 "\<lambda>a k. Inr JNull"
      "[''self'', ''octocat'']" "[]" Map.empty Map.empty]
  by (simp add: github_cached_def cache_key_def)

text \<open>
  Claim C6 at its failing input. A method called with its first argument by keyword has the
  instance as its only positional argument: the key raises \<open>IndexError\<close> and so does the
  wrapper, leaving the cache as it was. With no positional argument at all the key is built
  from the name of the first keyword, not from its value. With the first argument passed
  by position the key is the identity of the function, a colon and that argument.
\<close>

theorem cache_key_keyword_call:
  "cache_key ps fid [self] ((k, v) # kw) = Inl IndexError
 \<and> github_cached cg cs ps fid func [self] ((k, v) # kw) c = (Inl IndexError, c)
 \<and> cache_key ps fid [] ((k, v) # kw) = Inr (digits fid @ '':'' @ k)
 \<and> cache_key ps fid (self # x # rest) kw = Inr (digits fid @ '':'' @ ps x)"
  by (simp add: cache_key_def github_cached_def)

section \<open>Properties of the lines-of-code command\<close>

text \<open>
  Claim C7. For a repository name with one slash whose archive is served with status 200
  and has at least as many bytes as the threshold, \<open>get_repo_zip\<close> returns \<open>False\<close>.
  When the repository exists and its report is not taken from the cache, such an archive of
  at least 25 MB makes the command reply with the error \<open>loc.file_too_big\<close>; the lines
  are not counted and the cache of reports is as it was.
\<close>

theorem too_big_no_count:
  "(count_list repo (CHR ''/'') = 1
      \<and> status (session_get (zipball_url repo)) = 200
      \<and> size_threshold \<le> length (body (session_get (zipball_url repo)))
    \<longrightarrow> get_repo_zip session_get repo size_threshold = ZFalse)
 \<and> (truthy (case lookup repo0 of None \<Rightarrow> JNull | Some j \<Rightarrow> j)
      \<and> (nocache \<or> loc_cache (str_lower repo0) = None)
      \<and> repo = (if nocache then repo0 else str_lower repo0)
      \<and> count_list repo (CHR ''/'') = 1
      \<and> status (session_get (zipball_url repo)) = 200
      \<and> MB25_BYTES \<le> length (body (session_get (zipball_url repo)))
    \<longrightarrow> fst (lines_of_code_command lookup session_get count_lines nocache loc_cache repo0)
          = Error ''loc.file_too_big''
      \<and> fst (snd (lines_of_code_command lookup session_get count_lines nocache loc_cache repo0))
          = loc_cache
      \<and> CountLines \<notin> set (snd (snd
          (lines_of_code_command lookup session_get count_lines nocache loc_cache repo0))))"
proof -
  have a: "count_list repo (CHR ''/'') = 1 \<Longrightarrow> CHR ''/'' \<in> set repo"
    by (metis count_list_0_iff zero_neq_one)
  have z: "count_list repo (CHR ''/'') = 1 \<Longrightarrow> status (session_get (zipball_url repo)) = 200
      \<Longrightarrow> t \<le> length (body (session_get (zipball_url repo)))
      \<Longrightarrow> get_repo_zip session_get repo t = ZFalse" for t
    using a by (simp add: get_repo_zip_def Let_def)
  show ?thesis
    using z [of size_threshold] z [of MB25_BYTES]
    by (auto simp add: lines_of_code_command_def process_repo_def Let_def)
qed

theorem too_big_no_count_witness:
  "get_repo_zip (\<lambda>u. \<lparr>status = 200, body = replicate MB25_BYTES (CHR ''a'')\<rparr>) ''a/b'' MB25_BYTES
     = ZFalse
 \<and> fst (lines_of_code_command (\<lambda>r. Some (JDict [(''url'', JStr ''x'')]))
        (\<lambda>u. \<lparr>status = 200, body = replicate MB25_BYTES (CHR ''a'')\<rparr>)
        (\<lambda>r f. Some ((), 0)) True Map.empty ''a/b'')
      = (Error ''loc.file_too_big'' :: (unit \<times> loc_footer) reply)"
  using too_big_no_count [where repo = "''a/b''" and repo0 = "''a/b''"
      and session_get = "\<lambda>u. \<lparr>status = 200, body = replicate MB25_BYTES (CHR ''a'')\<rparr>"
      and size_threshold = MB25_BYTES
      and lookup = "\<lambda>r. Some (JDict [(''url'', JStr ''x'')])"
      and nocache = True and loc_cache = Map.empty and count_lines = "\<lambda>r f. Some ((), 0)"]
  by simp

section \<open>Properties of the user collection\<close>

lemma matched_self:
  assumes "s ident = Some d" and "distinct (map fst d)" and "map_of d ''_id'' = Some ident"
  shows "matched s d = Some (ident, d)"
proof -
  have "list_all (\<lambda>kv. map_of d (fst kv) = Some (snd kv)) d"
    using assms(2) by (simp add: list_all_iff)
  then show ?thesis using assms(1,3) by (simp add: matched_def)
qed

lemma length_delete_one:
  assumes "distinct (map fst d)" and "map_of d ''_id'' = Some ident" and "field \<noteq> ''_id''"
  shows "length (AList.delete field d) = 1 \<longleftrightarrow> set (map fst d) \<subseteq> {''_id'', field}"
proof -
  let ?d = "AList.delete field d"
  have dist: "distinct (map fst ?d)" using assms(1) by (simp add: AList.distinct_delete)
  have keys: "set (map fst ?d) = set (map fst d) - {field}"
    by (simp add: AList.delete_keys)
  have "''_id'' \<in> set (map fst d)"
    using assms(2) by (metis map_of_eq_None_iff option.distinct(1) set_map)
  then have idin: "''_id'' \<in> set (map fst ?d)"
    using assms(3) keys by auto
  have len: "length ?d = card (set (map fst ?d))"
    using dist by (metis distinct_card length_map)
  show ?thesis
  proof
    assume "length ?d = 1"
    then have "card (set (map fst ?d)) = 1" using len by simp
    then obtain x where "set (map fst ?d) = {x}" by (auto simp: card_1_singleton_iff)
    then have "set (map fst d) - {field} = {''_id''}" using idin keys by auto
    then show "set (map fst d) \<subseteq> {''_id'', field}" by blast
  next
    assume "set (map fst d) \<subseteq> {''_id'', field}"
    then have "set (map fst ?d) = {''_id''}" using keys idin assms(3) by auto
    then show "length ?d = 1" using len by simp
  qed
qed

text \<open>
  Claim C8. On a collection whose record for the identity, if there is one, is a dictionary
  holding that identity as \<^verbatim>\<open>_id\<close>, and for a field other than \<^verbatim>\<open>_id\<close>: \<open>setitem\<close>
  returns \<open>True\<close> exactly when the lookup of the GitHub API for \<open>user\<close>, \<open>repo\<close> or
  \<open>org\<close> finds the value, when the value is the name of a language for \<open>locale\<close>, and
  always for another field. It then stores the value under the field, in the record of the
  identity or in a new one; otherwise the collection is as it was.
\<close>

theorem setitem_spec:
  assumes "item \<noteq> ''_id''"
    and "\<forall>d. s ident = Some d \<longrightarrow> distinct (map fst d) \<and> map_of d ''_id'' = Some ident"
  shows "\<exists>b s'. setitem env s ident item v = Inr (b, s')
     \<and> (b \<longleftrightarrow>
          (if item = ''user'' then get_user env v \<noteq> None
           else if item = ''repo'' then get_repo env v \<noteq> None
           else if item = ''org'' then get_org env v \<noteq> None
           else if item = ''locale'' then v \<in> set (map lang_name (languages env))
           else True))
     \<and> (b \<longrightarrow> s' = s(ident \<mapsto>
            (case s ident of
               Some d \<Rightarrow> AList.update item (StrV v) d
             | None \<Rightarrow> [(''_id'', ident), (item, StrV v)])))
     \<and> (\<not> b \<longrightarrow> s' = s)"
proof -
  have v: "valid_item env item v \<longleftrightarrow>
          (if item = ''user'' then get_user env v \<noteq> None
           else if item = ''repo'' then get_repo env v \<noteq> None
           else if item = ''org'' then get_org env v \<noteq> None
           else if item = ''locale'' then v \<in> set (map lang_name (languages env))
           else True)"
    by (auto simp add: valid_item_def list_ex_iff)
  show ?thesis
  proof (cases "valid_item env item v")
    case False
    then have "setitem env s ident item v = Inr (False, s)" by (simp add: setitem_def)
    then show ?thesis using False v by auto
  next
    case True
    show ?thesis
    proof (cases "s ident")
      case None
      then have "setitem env s ident item v
          = Inr (True, s(ident \<mapsto> [(''_id'', ident), (item, StrV v)]))"
        using True assms(1) by (simp add: setitem_def find_one_def insert_one_def Let_def)
      then show ?thesis using True v None by auto
    next
      case (Some d)
      then have wf: "distinct (map fst d)" "map_of d ''_id'' = Some ident"
        using assms(2) by auto
      have "update_one_set s d item (StrV v) = Inr (s(ident \<mapsto> AList.update item (StrV v) d))"
        using matched_self [of s ident d] Some wf assms(1) by (simp add: update_one_set_def)
      then have "setitem env s ident item v
          = Inr (True, s(ident \<mapsto> AList.update item (StrV v) d))"
        using True Some by (simp add: setitem_def find_one_def)
      then show ?thesis using True v Some by auto
    qed
  qed
qed

theorem setitem_spec_witness:
  "setitem \<lparr>get_user = (\<lambda>n. if n = ''octocat'' then Some (JDict [(''login'', JStr n)]) else None),
            get_repo = (\<lambda>n. None), get_org = (\<lambda>n. None),
            languages = [\<lparr>lang_name = ''en''\<rparr>]\<rparr>
     Map.empty (IdV 1) ''user'' ''octocat''
     = Inr (True, [IdV 1 \<mapsto> [(''_id'', IdV 1), (''user'', StrV ''octocat'')]])
 \<and> setitem \<lparr>get_user = (\<lambda>n. if n = ''octocat'' then Some (JDict [(''login'', JStr n)]) else None),
            get_repo = (\<lambda>n. None), get_org = (\<lambda>n. None),
            languages = [\<lparr>lang_name = ''en''\<rparr>]\<rparr>
     Map.empty (IdV 1) ''locale'' ''fr''
     = Inr (False, Map.empty)"
  using setitem_spec [of "''user''" Map.empty "IdV 1"
      "\<lparr>get_user = (\<lambda>n. if n = ''octocat'' then Some (JDict [(''login'', JStr n)]) else None),
        get_repo = (\<lambda>n. None), get_org = (\<lambda>n. None),
        languages = [\<lparr>lang_name = ''en''\<rparr>]\<rparr>" "''octocat''"]
    setitem_spec [of "''locale''" Map.empty "IdV 1"
      "\<lparr>get_user = (\<lambda>n. if n = ''octocat'' then Some (JDict [(''login'', JStr n)]) else None),
        get_repo = (\<lambda>n. None), get_org = (\<lambda>n. None),
        languages = [\<lparr>lang_name = ''en''\<rparr>]\<rparr>" "''fr''"]
  by auto

text \<open>
  Claim C10. On a collection whose record for the identity, if there is one, is a
  dictionary holding that identity as \<^verbatim>\<open>_id\<close>, and for a field other than \<^verbatim>\<open>_id\<close>:
  \<open>delitem\<close> returns \<open>True\<close> exactly when there is a record for the identity and it has
  the field. It then removes the field from the record, and removes the whole record when
  the field was the only one besides \<^verbatim>\<open>_id\<close>; otherwise the collection is as it was.
\<close>

theorem delitem_spec:
  assumes "field \<noteq> ''_id''"
    and "\<forall>d. s ident = Some d \<longrightarrow> distinct (map fst d) \<and> map_of d ''_id'' = Some ident"
  shows "\<exists>b s'. delitem s ident field = Inr (b, s')
     \<and> (b \<longleftrightarrow> (\<exists>d. s ident = Some d \<and> field \<in> set (map fst d)))
     \<and> (b \<longrightarrow> (\<exists>d. s ident = Some d
            \<and> s' = (if set (map fst d) = {''_id'', field} then s(ident := None)
                     else s(ident \<mapsto> AList.delete field d))))
     \<and> (\<not> b \<longrightarrow> s' = s)"
proof (cases "s ident")
  case None
  then have "delitem s ident field = Inr (False, s)" by (simp add: delitem_def find_one_def)
  then show ?thesis using None by auto
next
  case (Some d)
  then have wf: "distinct (map fst d)" "map_of d ''_id'' = Some ident" using assms(2) by auto
  show ?thesis
  proof (cases "field \<in> set (map fst d)")
    case False
    then have "delitem s ident field = Inr (False, s)"
      using Some by (simp add: delitem_def find_one_def)
    then show ?thesis using Some False by auto
  next
    case True
    have u: "update_one_unset s d field = Inr (s(ident \<mapsto> AList.delete field d))"
      using matched_self [of s ident d] Some wf assms(1) by (simp add: update_one_unset_def)
    have i: "''_id'' \<in> set (map fst d)"
      using wf(2) by (metis map_of_eq_None_iff option.distinct(1) set_map)
    have "length (AList.delete field d) = 1 \<longleftrightarrow> set (map fst d) \<subseteq> {''_id'', field}"
      using length_delete_one [OF wf assms(1)] .
    also have "\<dots> \<longleftrightarrow> set (map fst d) = {''_id'', field}"
      using True i by blast
    finally have l: "length (AList.delete field d) = 1 \<longleftrightarrow> set (map fst d) = {''_id'', field}" .
    have "delitem s ident field =
        Inr (True, if set (map fst d) = {''_id'', field} then s(ident := None)
                   else s(ident \<mapsto> AList.delete field d))"
      using Some True u l by (simp add: delitem_def find_one_def find_one_and_delete_def Let_def)
    then show ?thesis using Some True by auto
  qed
qed

theorem delitem_spec_witness:
  "delitem [IdV 1 \<mapsto> [(''_id'', IdV 1), (''user'', StrV ''octocat'')]] (IdV 1) ''user''
     = Inr (True, Map.empty)
 \<and> delitem [IdV 1 \<mapsto> [(''_id'', IdV 1), (''user'', StrV ''octocat'')]] (IdV 1) ''repo''
     = Inr (False, [IdV 1 \<mapsto> [(''_id'', IdV 1), (''user'', StrV ''octocat'')]])"
  using delitem_spec [of "''user''" "[IdV 1 \<mapsto> [(''_id'', IdV 1), (''user'', StrV ''octocat'')]]" "IdV 1"]
    delitem_spec [of "''repo''" "[IdV 1 \<mapsto> [(''_id'', IdV 1), (''user'', StrV ''octocat'')]]" "IdV 1"]
  by auto

section \<open>Properties of the truncated lists\<close>

lemma join_Cons: "join sep (x # xs) = x @ concat (map (\<lambda>y. sep @ y) xs)"
  by (induction xs arbitrary: x) simp_all

text \<open>
  Claim C9. The \<^verbatim>\<open>user repos\<close> command renders the first 15 repositories of the list, or
  all of them when there are at most 15, one item each and in order: the item of a
  repository is the bullet, its name in bold and its link. For a user that exists, with a
  list that is not empty, it sends an embed whose description is these items with a newline
  between two of them and whose footer is set, to the \<open>more\<close> text of the number of
  repositories beyond 15, exactly when there are more than 15. The authors line of the
  crate command renders the first 5 owners, or all of them when there are at most 5, each
  as its name, the team mark for a team, and its link, with a comma and a space between two
  of them; it is followed by the \<open>more_authors\<close> text of the number of owners beyond 5
  exactly when there are more than 5.
\<close>

theorem truncated_lists:
  "length (repo_lines rs) = min 15 (length rs)
 \<and> (\<forall>i < length (repo_lines rs). repo_lines rs ! i = render_repo (rs ! i))
 \<and> (\<forall>i < min 15 (length rs). repo_lines rs ! i
        = '':white_small_square: [**'' @ repo_name (rs ! i) @ ''**]('' @ html_url (rs ! i) @ '')'')
 \<and> (rs \<noteq> [] \<longrightarrow>
      (\<exists>e. user_repos_command fmt (Some ui) (Some rs) (c # cs) = Inr (Send e)
         \<and> description e = join [CHR 0x0A] (repo_lines rs)
         \<and> description e =
             (case take 15 rs of
                [] \<Rightarrow> []
              | x # xs \<Rightarrow>
                  '':white_small_square: [**'' @ repo_name x @ ''**]('' @ html_url x @ '')''
                  @ concat (map (\<lambda>y. CHR 0x0A # '':white_small_square: [**'' @ repo_name y
                                        @ ''**]('' @ html_url y @ '')'') xs))
         \<and> footer e = (if 15 < length rs then Some (fmt ''more'' [digits (length rs - 15)])
                       else None)))
 \<and> length (owner_links ows) = min 5 (length ows)
 \<and> (\<forall>i < length (owner_links ows). owner_links ows ! i = render_owner (ows ! i))
 \<and> (\<forall>i < min 5 (length ows). owner_links ows ! i
        = ''['' @ owner_name (ows ! i)
          @ (if kind (ows ! i) = ''team'' then '' '' @ [CHR 0x60] @ ''(team)'' @ [CHR 0x60] else [])
          @ '']('' @ owner_url (ows ! i) @ '')'')
 \<and> authors fmt ows crate_url
     = fmt ''authors'' [join '', '' (owner_links ows)]
       @ (if 5 < length ows
          then '' '' @ fmt ''more_authors''
                 [''['' @ digits (length ows - 5) @ '']('' @ crate_url @ '')'']
          else [])
       @ [CHR 0x0A]
 \<and> authors fmt ows crate_url
     = fmt ''authors''
         [case take 5 ows of
            [] \<Rightarrow> []
          | x # xs \<Rightarrow>
              ''['' @ owner_name x
                @ (if kind x = ''team'' then '' '' @ [CHR 0x60] @ ''(team)'' @ [CHR 0x60] else [])
                @ '']('' @ owner_url x @ '')''
              @ concat (map (\<lambda>y. '', '' @ ''['' @ owner_name y
                  @ (if kind y = ''team'' then '' '' @ [CHR 0x60] @ ''(team)'' @ [CHR 0x60] else [])
                  @ '']('' @ owner_url y @ '')'') xs)]
       @ (if 5 < length ows
          then '' '' @ fmt ''more_authors''
                 [''['' @ digits (length ows - 5) @ '']('' @ crate_url @ '')'']
          else [])
       @ [CHR 0x0A]"
proof -
  have d: "join sep (map f ys) = (case ys of [] \<Rightarrow> [] | x # xs \<Rightarrow> f x @ concat (map (\<lambda>y. sep @ f y) xs))"
    for sep :: string and f :: "'b \<Rightarrow> string" and ys
    by (cases ys) (simp_all add: join_Cons comp_def)
  have r: "join [CHR 0x0A] (repo_lines rs) =
      (case take 15 rs of
                [] \<Rightarrow> []
              | x # xs \<Rightarrow>
                  '':white_small_square: [**'' @ repo_name x @ ''**]('' @ html_url x @ '')''
                  @ concat (map (\<lambda>y. CHR 0x0A # '':white_small_square: [**'' @ repo_name y
                                        @ ''**]('' @ html_url y @ '')'') xs))"
    unfolding repo_lines_def d by (simp add: render_repo_def split: list.split)
  have o: "join '', '' (owner_links ows) =
      (case take 5 ows of
            [] \<Rightarrow> []
          | x # xs \<Rightarrow>
              ''['' @ owner_name x
                @ (if kind x = ''team'' then '' '' @ [CHR 0x60] @ ''(team)'' @ [CHR 0x60] else [])
                @ '']('' @ owner_url x @ '')''
              @ concat (map (\<lambda>y. '', '' @ ''['' @ owner_name y
                  @ (if kind y = ''team'' then '' '' @ [CHR 0x60] @ ''(team)'' @ [CHR 0x60] else [])
                  @ '']('' @ owner_url y @ '')'') xs))"
    unfolding owner_links_def d by (simp add: render_owner_def split: list.split)
  have a: "authors fmt ows crate_url
     = fmt ''authors'' [join '', '' (owner_links ows)]
       @ (if 5 < length ows
          then '' '' @ fmt ''more_authors''
                 [''['' @ digits (length ows - 5) @ '']('' @ crate_url @ '')'']
          else [])
       @ [CHR 0x0A]"
    by (simp add: authors_def more_authors_def)
  have l: "\<forall>i < min 15 (length rs). repo_lines rs ! i
        = '':white_small_square: [**'' @ repo_name (rs ! i) @ ''**]('' @ html_url (rs ! i) @ '')''"
    by (simp add: repo_lines_def render_repo_def)
  have k: "\<forall>i < min 5 (length ows). owner_links ows ! i
        = ''['' @ owner_name (ows ! i)
          @ (if kind (ows ! i) = ''team'' then '' '' @ [CHR 0x60] @ ''(team)'' @ [CHR 0x60] else [])
          @ '']('' @ owner_url (ows ! i) @ '')''"
    by (simp add: owner_links_def render_owner_def)
  have u: "rs \<noteq> [] \<Longrightarrow> \<exists>e. user_repos_command fmt (Some ui) (Some rs) (c # cs) = Inr (Send e)
         \<and> description e = join [CHR 0x0A] (repo_lines rs)
         \<and> footer e = (if 15 < length rs then Some (fmt ''more'' [digits (length rs - 15)])
                       else None)"
    by (simp add: user_repos_command_def Let_def)
  have b: "length (repo_lines rs) = min 15 (length rs)
    \<and> (\<forall>i < length (repo_lines rs). repo_lines rs ! i = render_repo (rs ! i))
    \<and> length (owner_links ows) = min 5 (length ows)
    \<and> (\<forall>i < length (owner_links ows). owner_links ows ! i = render_owner (ows ! i))"
    by (simp add: repo_lines_def owner_links_def min.commute)
  show ?thesis
    using b l k u a unfolding o [symmetric] r [symmetric] by blast
qed


theorem truncated_lists_witness:
  "(\<exists>e. user_repos_command (\<lambda>k a. k @ concat a) (Some \<lparr>avatarUrl = ''a''\<rparr>)
        (Some [\<lparr>repo_name = ''a'', html_url = ''h''\<rparr>, \<lparr>repo_name = ''b'', html_url = ''g''\<rparr>])
        ''Octo'' = Inr (Send e)
      \<and> description e
          = '':white_small_square: [**a**](h)'' @ [CHR 0x0A] @ '':white_small_square: [**b**](g)''
      \<and> footer e = None)
 \<and> (\<exists>e. user_repos_command (\<lambda>k a. k @ concat a) (Some \<lparr>avatarUrl = ''a''\<rparr>)
        (Some (replicate 15 \<lparr>repo_name = ''a'', html_url = ''h''\<rparr>
               @ [\<lparr>repo_name = ''z'', html_url = ''q''\<rparr>]))
        ''Octo'' = Inr (Send e)
      \<and> description e
          = '':white_small_square: [**a**](h)''
            @ concat (replicate 14 (CHR 0x0A # '':white_small_square: [**a**](h)''))
      \<and> footer e = Some ''more1'')
 \<and> (\<exists>e. user_repos_command (\<lambda>k a. k @ concat a) (Some \<lparr>avatarUrl = ''a''\<rparr>)
        (Some (replicate 27 \<lparr>repo_name = ''a'', html_url = ''h''\<rparr>)) ''Octo'' = Inr (Send e)
      \<and> footer e = Some ''more12'')
 \<and> length (repo_lines (replicate 15 \<lparr>repo_name = ''a'', html_url = ''h''\<rparr>
               @ [\<lparr>repo_name = ''z'', html_url = ''q''\<rparr>])) = 15
 \<and> authors (\<lambda>k a. k @ concat a)
      [\<lparr>owner_name = ''n'', kind = ''user'', owner_url = ''w''\<rparr>,
       \<lparr>owner_name = ''t'', kind = ''team'', owner_url = ''x''\<rparr>,
       \<lparr>owner_name = ''o'', kind = ''user'', owner_url = ''y''\<rparr>,
       \<lparr>owner_name = ''p'', kind = ''user'', owner_url = ''y''\<rparr>,
       \<lparr>owner_name = ''q'', kind = ''user'', owner_url = ''y''\<rparr>,
       \<lparr>owner_name = ''r'', kind = ''user'', owner_url = ''y''\<rparr>] ''c''
     = ''authors[n](w), [t '' @ [CHR 0x60] @ ''(team)'' @ [CHR 0x60]
       @ ''](x), [o](y), [p](y), [q](y) more_authors[1](c)'' @ [CHR 0x0A]
 \<and> authors (\<lambda>k a. k @ concat a)
      [\<lparr>owner_name = ''n'', kind = ''user'', owner_url = ''w''\<rparr>] ''c''
     = ''authors[n](w)'' @ [CHR 0x0A]"
proof -
  have two: "\<exists>e. user_repos_command (\<lambda>k a. k @ concat a) (Some \<lparr>avatarUrl = ''a''\<rparr>)
        (Some [\<lparr>repo_name = ''a'', html_url = ''h''\<rparr>, \<lparr>repo_name = ''b'', html_url = ''g''\<rparr>])
        ''Octo'' = Inr (Send e)
      \<and> description e
          = '':white_small_square: [**a**](h)'' @ [CHR 0x0A] @ '':white_small_square: [**b**](g)''
      \<and> footer e = None"
    using truncated_lists [where rs = "[\<lparr>repo_name = ''a'', html_url = ''h''\<rparr>, \<lparr>repo_name = ''b'', html_url = ''g''\<rparr>]"
      and fmt = "\<lambda>k a. k @ concat a" and ui = "\<lparr>avatarUrl = ''a''\<rparr>"
      and c = "CHR ''O''" and cs = "''cto''" and ows = "[]" and crate_url = "[]"]
    by auto
  have sixteen: "(\<exists>e. user_repos_command (\<lambda>k a. k @ concat a) (Some \<lparr>avatarUrl = ''a''\<rparr>)
        (Some (replicate 15 \<lparr>repo_name = ''a'', html_url = ''h''\<rparr>
               @ [\<lparr>repo_name = ''z'', html_url = ''q''\<rparr>]))
        ''Octo'' = Inr (Send e)
      \<and> description e
          = '':white_small_square: [**a**](h)''
            @ concat (replicate 14 (CHR 0x0A # '':white_small_square: [**a**](h)''))
      \<and> footer e = Some ''more1'')
     \<and> length (repo_lines (replicate 15 \<lparr>repo_name = ''a'', html_url = ''h''\<rparr>
               @ [\<lparr>repo_name = ''z'', html_url = ''q''\<rparr>])) = 15"
    using truncated_lists [where rs = "replicate 15 \<lparr>repo_name = ''a'', html_url = ''h''\<rparr>
               @ [\<lparr>repo_name = ''z'', html_url = ''q''\<rparr>]"
      and fmt = "\<lambda>k a. k @ concat a" and ui = "\<lparr>avatarUrl = ''a''\<rparr>"
      and c = "CHR ''O''" and cs = "''cto''" and ows = "[]" and crate_url = "[]"]
    by (auto simp add: digits.simps digit_char_def eval_nat_numeral)
  have many: "\<exists>e. user_repos_command (\<lambda>k a. k @ concat a) (Some \<lparr>avatarUrl = ''a''\<rparr>)
        (Some (replicate 27 \<lparr>repo_name = ''a'', html_url = ''h''\<rparr>)) ''Octo'' = Inr (Send e)
      \<and> footer e = Some ''more12''"
    using truncated_lists [where rs = "replicate 27 \<lparr>repo_name = ''a'', html_url = ''h''\<rparr>"
      and fmt = "\<lambda>k a. k @ concat a" and ui = "\<lparr>avatarUrl = ''a''\<rparr>"
      and c = "CHR ''O''" and cs = "''cto''" and ows = "[]" and crate_url = "[]"]
    by (auto simp add: digits.simps digit_char_def)
  have six: "authors (\<lambda>k a. k @ concat a)
      [\<lparr>owner_name = ''n'', kind = ''user'', owner_url = ''w''\<rparr>,
       \<lparr>owner_name = ''t'', kind = ''team'', owner_url = ''x''\<rparr>,
       \<lparr>owner_name = ''o'', kind = ''user'', owner_url = ''y''\<rparr>,
       \<lparr>owner_name = ''p'', kind = ''user'', owner_url = ''y''\<rparr>,
       \<lparr>owner_name = ''q'', kind = ''user'', owner_url = ''y''\<rparr>,
       \<lparr>owner_name = ''r'', kind = ''user'', owner_url = ''y''\<rparr>] ''c''
     = ''authors[n](w), [t '' @ [CHR 0x60] @ ''(team)'' @ [CHR 0x60]
       @ ''](x), [o](y), [p](y), [q](y) more_authors[1](c)'' @ [CHR 0x0A]"
    using truncated_lists [where rs = "[]"
      and fmt = "\<lambda>k a. k @ concat a" and ui = "\<lparr>avatarUrl = ''a''\<rparr>"
      and c = "CHR ''O''" and cs = "''cto''"
      and ows = "[\<lparr>owner_name = ''n'', kind = ''user'', owner_url = ''w''\<rparr>,
       \<lparr>owner_name = ''t'', kind = ''team'', owner_url = ''x''\<rparr>,
       \<lparr>owner_name = ''o'', kind = ''user'', owner_url = ''y''\<rparr>,
       \<lparr>owner_name = ''p'', kind = ''user'', owner_url = ''y''\<rparr>,
       \<lparr>owner_name = ''q'', kind = ''user'', owner_url = ''y''\<rparr>,
       \<lparr>owner_name = ''r'', kind = ''user'', owner_url = ''y''\<rparr>]"
      and crate_url = "''c''"]
    by (auto simp add: digits.simps digit_char_def eval_nat_numeral)
  have one: "authors (\<lambda>k a. k @ concat a)
      [\<lparr>owner_name = ''n'', kind = ''user'', owner_url = ''w''\<rparr>] ''c''
     = ''authors[n](w)'' @ [CHR 0x0A]"
    using truncated_lists [where rs = "[]"
      and fmt = "\<lambda>k a. k @ concat a" and ui = "\<lparr>avatarUrl = ''a''\<rparr>"
      and c = "CHR ''O''" and cs = "''cto''"
      and ows = "[\<lparr>owner_name = ''n'', kind = ''user'', owner_url = ''w''\<rparr>]"
      and crate_url = "''c''"]
    by (auto simp add: eval_nat_numeral)
  show ?thesis using two sixteen many six one by blast
qed

end
